theory Spec2Isabelle
  imports Complex_Main "HOL-Library.Multiset"
begin

section \<open>Strings and characters\<close>

text \<open>
  Strings of the TypeScript sources are modelled as \<open>string\<close> (lists of 8-bit
  characters, read as code units below 256). The character classes are the ones of the
  regular expressions in the sources: \<open>\d\<close> is \<open>[0-9]\<close>, \<open>[A-Za-z]\<close> the ASCII letters.
\<close>

definition is_digit :: "char \<Rightarrow> bool" where
  "is_digit c = (let n = (of_char c :: nat) in 48 \<le> n \<and> n \<le> 57)"

definition is_letter :: "char \<Rightarrow> bool" where
  "is_letter c =
     (let n = (of_char c :: nat) in (65 \<le> n \<and> n \<le> 90) \<or> (97 \<le> n \<and> n \<le> 122))"

definition toUpperCase_char :: "char \<Rightarrow> char" where
  "toUpperCase_char c =
     (let n = (of_char c :: nat) in if 97 \<le> n \<and> n \<le> 122 then char_of (n - 32) else c)"

text \<open>White space of \<open>String.prototype.trim\<close> among the code units below 256.\<close>

definition is_space :: "char \<Rightarrow> bool" where
  "is_space c = (let n = (of_char c :: nat) in (9 \<le> n \<and> n \<le> 13) \<or> n = 32 \<or> n = 160)"

definition trim :: "string \<Rightarrow> string" where
  "trim s = rev (dropWhile is_space (rev (dropWhile is_space s)))"

text \<open>
  \<open>toLowerCase\<close> on code units below 256: the ASCII capitals and the Latin-1 capitals
  move up by 32.
\<close>

definition toLowerCase_char :: "char \<Rightarrow> char" where
  "toLowerCase_char c =
     (let n = (of_char c :: nat)
      in if (65 \<le> n \<and> n \<le> 90) \<or> (192 \<le> n \<and> n \<le> 222 \<and> n \<noteq> 215)
         then char_of (n + 32) else c)"

definition toLowerCase :: "string \<Rightarrow> string" where
  "toLowerCase s = map toLowerCase_char s"


section \<open>Input masking (\<open>applyMask\<close>, \<open>removeMask\<close>, \<open>handleChange\<close>)\<close>

text \<open>
  \<open>applyMask\<close> walks the mask with index \<open>i\<close> and the value with \<open>valueIndex\<close>; the
  loop runs while both are in range. The recursion below is on the rest of the mask and
  the rest of the value; the third argument is \<open>maskedValue\<close>. A \<open>break\<close> returns the
  accumulator.
\<close>

fun applyMask_loop :: "string \<Rightarrow> string \<Rightarrow> string \<Rightarrow> string" where
  "applyMask_loop [] v maskedValue = maskedValue"
| "applyMask_loop (maskChar # ms) [] maskedValue = maskedValue"
| "applyMask_loop (maskChar # ms) (inputChar # cs) maskedValue =
     (if maskChar = CHR ''9'' then
        (if is_digit inputChar then applyMask_loop ms cs (maskedValue @ [inputChar])
         else maskedValue)
      else if maskChar = CHR ''A'' then
        (if is_letter inputChar
         then applyMask_loop ms cs (maskedValue @ [toUpperCase_char inputChar])
         else maskedValue)
      else if maskChar = CHR ''*'' then applyMask_loop ms cs (maskedValue @ [inputChar])
      else applyMask_loop ms (inputChar # cs) (maskedValue @ [maskChar]))"

definition applyMask :: "string \<Rightarrow> string \<Rightarrow> string" where
  "applyMask v msk = applyMask_loop msk v []"

definition removeMask :: "string \<Rightarrow> string \<Rightarrow> string" where
  "removeMask v msk =
     (let maskChars =
            set (filter (\<lambda>c. \<not> (c = CHR ''9'' \<or> c = CHR ''A'' \<or> c = CHR ''*'')) msk)
      in filter (\<lambda>c. c \<notin> maskChars) v)"

text \<open>
  The value part of the input's \<open>handleChange\<close>: with a non-empty mask pattern the typed
  text loses its non-digits (\<open>replace(/\D/g, '')\<close>) and is masked; the pair returned is
  the value shown in the control (\<open>setInputValue\<close>) and the value passed to \<open>onChange\<close>.
\<close>

definition handleChange_values :: "string option \<Rightarrow> string \<Rightarrow> string \<times> string" where
  "handleChange_values maskPattern typed =
     (case maskPattern of
        None \<Rightarrow> (typed, typed)
      | Some p \<Rightarrow>
          if p = [] then (typed, typed)
          else (let newValue = applyMask (filter is_digit typed) p
                in (newValue, removeMask newValue p)))"

definition phone_mask :: string where
  "phone_mask = ''(999) 999-9999''"


section \<open>Design-token keys (\<open>sanitizeTokenKey\<close>)\<close>

text \<open>The characters kept by \<open>/[^a-z0-9_-]/g\<close>.\<close>

definition token_char :: "char \<Rightarrow> bool" where
  "token_char c =
     (let n = (of_char c :: nat)
      in (97 \<le> n \<and> n \<le> 122) \<or> (48 \<le> n \<and> n \<le> 57) \<or> c = CHR ''_'' \<or> c = CHR ''-'')"

definition replace_invalid :: "string \<Rightarrow> string" where
  "replace_invalid s = map (\<lambda>c. if token_char c then c else CHR ''-'') s"

text \<open>\<open>replace(/-+/g, '-')\<close>: every maximal run of dashes becomes one dash.\<close>

fun collapse_dashes :: "string \<Rightarrow> string" where
  "collapse_dashes [] = []"
| "collapse_dashes [c] = [c]"
| "collapse_dashes (c # d # cs) =
     (if c = CHR ''-'' \<and> d = CHR ''-'' then collapse_dashes (d # cs)
      else c # collapse_dashes (d # cs))"

text \<open>\<open>replace(/^-|-$/g, '')\<close>: one dash at the start and one at the end are removed.\<close>

definition strip_edge_dashes :: "string \<Rightarrow> string" where
  "strip_edge_dashes s =
     (let s1 = (case s of [] \<Rightarrow> [] | c # cs \<Rightarrow> if c = CHR ''-'' then cs else s)
      in if s1 \<noteq> [] \<and> last s1 = CHR ''-'' then butlast s1 else s1)"

definition sanitizeTokenKey :: "string \<Rightarrow> string" where
  "sanitizeTokenKey key =
     strip_edge_dashes (collapse_dashes (replace_invalid (toLowerCase (trim key))))"

text \<open>The sanitized form of a key, as a predicate that computes.\<close>

fun no_double_dash :: "string \<Rightarrow> bool" where
  "no_double_dash [] = True"
| "no_double_dash [c] = True"
| "no_double_dash (c # d # cs) =
     (\<not> (c = CHR ''-'' \<and> d = CHR ''-'') \<and> no_double_dash (d # cs))"

definition sanitized_form :: "string \<Rightarrow> bool" where
  "sanitized_form s =
     (list_all token_char s
      \<and> (s \<noteq> [] \<longrightarrow> hd s \<noteq> CHR ''-'' \<and> last s \<noteq> CHR ''-'')
      \<and> no_double_dash s)"


section \<open>Validation rules and the validation hook (\<open>useEnhancedValidation\<close>)\<close>

text \<open>
  The values a field can hold (the hook's \<open>value: T\<close> and \<open>formData\<close> are \<open>any\<close>).
  Numbers are the integers; \<open>NaN\<close> and fractions are not modelled.
\<close>

datatype jsvalue =
    JUndefined
  | JNull
  | JBool bool
  | JNum int
  | JStr string
  | JArray "jsvalue list"
  | JObject

text \<open>Truthiness, as used by \<open>!currentValue\<close>.\<close>

fun truthy :: "jsvalue \<Rightarrow> bool" where
  "truthy JUndefined = False"
| "truthy JNull = False"
| "truthy (JBool b) = b"
| "truthy (JNum n) = (n \<noteq> 0)"
| "truthy (JStr s) = (s \<noteq> [])"
| "truthy (JArray xs) = True"
| "truthy JObject = True"

text \<open>
  Truthiness of an optional string (\<open>string | undefined\<close>, \<open>string | null\<close>): absent and
  the empty string are falsy. This is the test of \<open>if (customError)\<close>, \<open>if (error)\<close> and
  \<open>error || ...\<close>.
\<close>

fun str_truthy :: "string option \<Rightarrow> bool" where
  "str_truthy None = False"
| "str_truthy (Some s) = (s \<noteq> [])"

text \<open>\<open>x ? [x] : []\<close> for an optional string.\<close>

fun present :: "string option \<Rightarrow> string list" where
  "present None = []"
| "present (Some s) = (if s = [] then [] else [s])"

text \<open>
  The result of calling a function the host supplies: it returns, or it throws. For an
  \<open>asyncValidator\<close>, \<open>Returns b\<close> is a promise resolved with \<open>b\<close> and \<open>Raises\<close> a rejected
  promise (or a throw before the promise exists): \<open>await\<close> turns the rejection into a
  throw.
\<close>

datatype 'a outcome = Returns 'a | Raises

datatype rule_type =
    Required | Email | Phone | Url | Min | Max | Pattern | Custom | Async
  | OtherType string

text \<open>
  The hook's \<open>ValidationRule\<close>. \<open>value\<close> is the numeric bound of a min/max rule
  (absent or an integer); a \<open>RegExp\<close> is represented by its \<open>test\<close> function.
\<close>

record validation_rule =
  rtype :: rule_type
  message :: string
  rvalue :: "int option"
  rpattern :: "(jsvalue \<Rightarrow> bool) option"
  customValidator :: "(jsvalue \<Rightarrow> jsvalue \<Rightarrow> bool outcome) option"
  asyncValidator :: "(jsvalue \<Rightarrow> jsvalue \<Rightarrow> bool outcome) option"

record validation_options =
  validateOnChange :: bool
  validateOnBlur :: bool
  validateOnMount :: bool
  debounceMs :: nat
  stopOnFirstError :: bool

definition DEFAULT_OPTIONS :: validation_options where
  "DEFAULT_OPTIONS =
     \<lparr>validateOnChange = True, validateOnBlur = True, validateOnMount = False,
      debounceMs = 300, stopOnFirstError = False\<rparr>"

text \<open>
  The built-in validators that rest on the platform's regular expressions and URL parser
  (\<open>VALIDATORS.email\<close>, \<open>.phone\<close>, \<open>.url\<close>) are parameters of the model; \<open>required\<close>,
  \<open>min\<close>, \<open>max\<close> and \<open>pattern\<close> are written out.
\<close>

record platform_validators =
  v_email :: "jsvalue \<Rightarrow> bool outcome"
  v_phone :: "jsvalue \<Rightarrow> bool outcome"
  v_url :: "jsvalue \<Rightarrow> bool outcome"

fun VALIDATORS_required :: "jsvalue \<Rightarrow> bool" where
  "VALIDATORS_required (JStr s) = (trim s \<noteq> [])"
| "VALIDATORS_required (JArray xs) = (xs \<noteq> [])"
| "VALIDATORS_required (JBool b) = b"
| "VALIDATORS_required JUndefined = False"
| "VALIDATORS_required JNull = False"
| "VALIDATORS_required (JNum n) = True"
| "VALIDATORS_required JObject = True"

fun VALIDATORS_min :: "jsvalue \<Rightarrow> int option \<Rightarrow> bool" where
  "VALIDATORS_min (JNum n) (Some m) = (n \<ge> m)"
| "VALIDATORS_min (JStr s) (Some m) = (int (length s) \<ge> m)"
| "VALIDATORS_min v b = False"

fun VALIDATORS_max :: "jsvalue \<Rightarrow> int option \<Rightarrow> bool" where
  "VALIDATORS_max (JNum n) (Some m) = (n \<le> m)"
| "VALIDATORS_max (JStr s) (Some m) = (int (length s) \<le> m)"
| "VALIDATORS_max v b = False"

text \<open>
  \<open>VALIDATORS.pattern(currentValue, rule.pattern!)\<close>: without a pattern the call
  \<open>pattern.test\<close> throws a \<open>TypeError\<close>.
\<close>

fun VALIDATORS_pattern :: "jsvalue \<Rightarrow> (jsvalue \<Rightarrow> bool) option \<Rightarrow> bool outcome" where
  "VALIDATORS_pattern v None = Raises"
| "VALIDATORS_pattern v (Some p) = Returns (p v)"

datatype diagnostic = ConsoleWarn rule_type | ConsoleError rule_type

text \<open>
  The body of the \<open>try\<close> block of \<open>validateRule\<close>: \<open>isValid\<close> starts as \<open>false\<close>, the
  \<open>switch\<close> sets it, and the block returns \<open>null\<close> or the rule's message; the \<open>default\<close>
  branch warns and returns \<open>null\<close>. A throw inside the block is \<open>Raises\<close>.
\<close>

definition switch_isValid ::
  "platform_validators \<Rightarrow> jsvalue \<Rightarrow> validation_rule \<Rightarrow> jsvalue \<Rightarrow> bool outcome" where
  "switch_isValid V formData rule currentValue =
     (case rtype rule of
        Required \<Rightarrow> Returns (VALIDATORS_required currentValue)
      | Email \<Rightarrow> if truthy currentValue then v_email V currentValue else Returns True
      | Phone \<Rightarrow> if truthy currentValue then v_phone V currentValue else Returns True
      | Url \<Rightarrow> if truthy currentValue then v_url V currentValue else Returns True
      | Min \<Rightarrow> if truthy currentValue
               then Returns (VALIDATORS_min currentValue (rvalue rule)) else Returns True
      | Max \<Rightarrow> if truthy currentValue
               then Returns (VALIDATORS_max currentValue (rvalue rule)) else Returns True
      | Pattern \<Rightarrow> if truthy currentValue
               then VALIDATORS_pattern currentValue (rpattern rule) else Returns True
      | Custom \<Rightarrow> (case customValidator rule of
                     None \<Rightarrow> Returns False
                   | Some f \<Rightarrow> f currentValue formData)
      | Async \<Rightarrow> (case asyncValidator rule of
                    None \<Rightarrow> Returns False
                  | Some f \<Rightarrow> f currentValue formData)
      | OtherType t \<Rightarrow> Returns False)"

definition validateRule_try ::
  "platform_validators \<Rightarrow> jsvalue \<Rightarrow> validation_rule \<Rightarrow> jsvalue
     \<Rightarrow> (diagnostic list \<times> string option) outcome" where
  "validateRule_try V formData rule currentValue =
     (case rtype rule of
        OtherType t \<Rightarrow> Returns ([ConsoleWarn (OtherType t)], None)
      | _ \<Rightarrow>
          (case switch_isValid V formData rule currentValue of
             Raises \<Rightarrow> Raises
           | Returns isValid \<Rightarrow>
               Returns ([], if isValid then None else Some (message rule))))"

text \<open>
  \<open>validateRule\<close> is the \<open>try\<close> block with its \<open>catch\<close>: the handler logs with
  \<open>console.error\<close> and returns the rule's message. The result is still an \<open>outcome\<close>, so
  that "nothing is thrown" is a statement about the function and not about its type.
\<close>

definition validateRule ::
  "platform_validators \<Rightarrow> jsvalue \<Rightarrow> validation_rule \<Rightarrow> jsvalue
     \<Rightarrow> (diagnostic list \<times> string option) outcome" where
  "validateRule V formData rule currentValue =
     (case validateRule_try V formData rule currentValue of
        Returns r \<Rightarrow> Returns r
      | Raises \<Rightarrow> Returns ([ConsoleError (rtype rule)], Some (message rule)))"

text \<open>The hook's four state cells.\<close>

record hook_state =
  errors :: "string list"
  customError :: "string option"
  isValidating :: bool
  hasValidated :: bool

text \<open>
  The \<open>for\<close> loop of \<open>validate\<close> over the rules, with \<open>newErrors\<close> and the console log
  as accumulators; \<open>await validateRule\<close> passes a throw on.
\<close>

fun validate_loop ::
  "platform_validators \<Rightarrow> validation_options \<Rightarrow> jsvalue \<Rightarrow> jsvalue \<Rightarrow> validation_rule list
     \<Rightarrow> string list \<Rightarrow> diagnostic list \<Rightarrow> (string list \<times> diagnostic list) outcome" where
  "validate_loop V opts formData v [] newErrors logged = Returns (newErrors, logged)"
| "validate_loop V opts formData v (rule # rules) newErrors logged =
     (case validateRule V formData rule v of
        Raises \<Rightarrow> Raises
      | Returns (d, error) \<Rightarrow>
          if str_truthy error then
            (if stopOnFirstError opts then Returns (newErrors @ present error, logged @ d)
             else validate_loop V opts formData v rules (newErrors @ present error) (logged @ d))
          else validate_loop V opts formData v rules newErrors (logged @ d))"

text \<open>
  \<open>validate\<close>: the new state, the console log and the promised boolean. \<open>isValidating\<close> is
  set to \<open>true\<close> before the loop and to \<open>false\<close> after it; the state returned is the one
  after the last \<open>set\<close> call.
\<close>

definition validate ::
  "platform_validators \<Rightarrow> validation_options \<Rightarrow> jsvalue \<Rightarrow> validation_rule list \<Rightarrow> jsvalue
     \<Rightarrow> hook_state \<Rightarrow> (hook_state \<times> diagnostic list \<times> bool) outcome" where
  "validate V opts formData rules v st =
     (if rules = [] \<and> \<not> str_truthy (customError st)
      then Returns (st\<lparr>errors := []\<rparr>, [], True)
      else
        (case validate_loop V opts formData v rules (present (customError st)) [] of
           Raises \<Rightarrow> Raises
         | Returns (newErrors, logged) \<Rightarrow>
             Returns (st\<lparr>errors := newErrors, isValidating := False, hasValidated := True\<rparr>,
                      logged, newErrors = [])))"

definition reset :: "hook_state \<Rightarrow> hook_state" where
  "reset st =
     st\<lparr>errors := [], customError := None, isValidating := False, hasValidated := False\<rparr>"

definition setCustomErrorHandler :: "string option \<Rightarrow> hook_state \<Rightarrow> hook_state" where
  "setCustomErrorHandler error st =
     (let st1 = st\<lparr>customError := error\<rparr>
      in if str_truthy error then st1\<lparr>hasValidated := True\<rparr> else st1)"

text \<open>The computed part of the hook's result.\<close>

definition allErrors :: "hook_state \<Rightarrow> string list" where
  "allErrors st = present (customError st) @ errors st"

definition isValid :: "hook_state \<Rightarrow> bool" where
  "isValid st = (allErrors st = [] \<and> \<not> isValidating st)"

definition hasError :: "hook_state \<Rightarrow> bool" where
  "hasError st = (allErrors st \<noteq> [])"

definition errorMessage :: "hook_state \<Rightarrow> string option" where
  "errorMessage st = (case allErrors st of [] \<Rightarrow> None | e # es \<Rightarrow> Some e)"

text \<open>
  When a rule's own validator throws: the rule is a \<open>custom\<close> (\<open>async\<close>) rule whose
  \<open>customValidator\<close> (\<open>asyncValidator\<close>) is present and raises on the value.
\<close>

definition validator_throws :: "validation_rule \<Rightarrow> jsvalue \<Rightarrow> jsvalue \<Rightarrow> bool" where
  "validator_throws rule v formData =
     (case rtype rule of
        Custom \<Rightarrow> (case customValidator rule of None \<Rightarrow> False | Some f \<Rightarrow> f v formData = Raises)
      | Async \<Rightarrow> (case asyncValidator rule of None \<Rightarrow> False | Some f \<Rightarrow> f v formData = Raises)
      | _ \<Rightarrow> False)"

text \<open>A rule passes when \<open>validateRule\<close> yields no (truthy) message for it.\<close>

definition rule_passes ::
  "platform_validators \<Rightarrow> jsvalue \<Rightarrow> jsvalue \<Rightarrow> validation_rule \<Rightarrow> bool" where
  "rule_passes V formData v rule =
     (case validateRule V formData rule v of
        Returns (d, e) \<Rightarrow> \<not> str_truthy e
      | Raises \<Rightarrow> False)"

text \<open>Concrete inputs used in the examples below.\<close>

definition accepting_platform :: platform_validators where
  "accepting_platform =
     \<lparr>v_email = (\<lambda>v. Returns True), v_phone = (\<lambda>v. Returns True), v_url = (\<lambda>v. Returns True)\<rparr>"

definition always_raises :: "jsvalue \<Rightarrow> jsvalue \<Rightarrow> bool outcome" where
  "always_raises v formData = Raises"

definition plain_rule :: "rule_type \<Rightarrow> string \<Rightarrow> validation_rule" where
  "plain_rule t m =
     \<lparr>rtype = t, message = m, rvalue = None, rpattern = None,
      customValidator = None, asyncValidator = None\<rparr>"

definition throwing_rule :: "string \<Rightarrow> validation_rule" where
  "throwing_rule m = (plain_rule Custom m)\<lparr>customValidator := Some always_raises\<rparr>"

definition idle_hook :: hook_state where
  "idle_hook = \<lparr>errors = [], customError = None, isValidating = False, hasValidated = False\<rparr>"

section \<open>Inline validators of the input and checkbox components\<close>

text \<open>
  The \<open>ValidationRule\<close> of the dual-mode input (\<open>dyn-input.tsx\<close>). Its validators take
  the input's text. The enhanced-only input declares the same rule without the \<open>async\<close>
  type and without \<open>asyncValidator\<close>.
\<close>

record input_rule =
  i_type :: rule_type
  i_message :: string
  i_value :: "int option"
  i_pattern :: "(string \<Rightarrow> bool) option"
  i_customValidator :: "(string \<Rightarrow> bool) option"
  i_asyncValidator :: "(string \<Rightarrow> bool) option"

text \<open>The regular-expression validators of the input's \<open>VALIDATORS\<close> table, as parameters.\<close>

record input_validators =
  i_email :: "string \<Rightarrow> bool"
  i_phone :: "string \<Rightarrow> bool"
  i_url :: "string \<Rightarrow> bool"

text \<open>
  The \<open>switch\<close> of \<open>validateInput\<close>: \<open>isValid\<close> starts as \<open>false\<close> and stays so where no
  \<open>case\<close> assigns it (the \<open>async\<close> case only breaks). \<open>!inputValue\<close> is "the text is
  empty"; \<open>rule.value || 0\<close> and \<open>rule.value || Infinity\<close> replace an absent or zero bound.
\<close>

definition input_rule_isValid :: "input_validators \<Rightarrow> input_rule \<Rightarrow> string \<Rightarrow> bool" where
  "input_rule_isValid IV rule inputValue =
     (case i_type rule of
        Required \<Rightarrow> trim inputValue \<noteq> []
      | Email \<Rightarrow> inputValue = [] \<or> i_email IV inputValue
      | Phone \<Rightarrow> inputValue = [] \<or> i_phone IV inputValue
      | Url \<Rightarrow> inputValue = [] \<or> i_url IV inputValue
      | Min \<Rightarrow> inputValue = [] \<or>
          (case i_value rule of
             None \<Rightarrow> True
           | Some n \<Rightarrow> int (length inputValue) \<ge> n)
      | Max \<Rightarrow> inputValue = [] \<or>
          (case i_value rule of
             None \<Rightarrow> True
           | Some n \<Rightarrow> if n = 0 then True else int (length inputValue) \<le> n)
      | Pattern \<Rightarrow> inputValue = [] \<or>
          (case i_pattern rule of None \<Rightarrow> True | Some p \<Rightarrow> p inputValue)
      | Custom \<Rightarrow> inputValue = [] \<or>
          (case i_customValidator rule of None \<Rightarrow> True | Some f \<Rightarrow> f inputValue)
      | Async \<Rightarrow> False
      | OtherType t \<Rightarrow> False)"

fun validateInput_loop ::
  "input_validators \<Rightarrow> input_rule list \<Rightarrow> string \<Rightarrow> string list \<Rightarrow> string list" where
  "validateInput_loop IV [] inputValue errs = errs"
| "validateInput_loop IV (rule # rules) inputValue errs =
     validateInput_loop IV rules inputValue
       (if input_rule_isValid IV rule inputValue then errs else errs @ [i_message rule])"

text \<open>
  \<open>validateInput\<close> of the dual-mode input; \<open>hasEnhancedFeatures\<close> is the component's
  flag (true as soon as \<open>validation\<close> is non-empty).
\<close>

definition validateInput ::
  "input_validators \<Rightarrow> bool \<Rightarrow> input_rule list \<Rightarrow> string \<Rightarrow> string list" where
  "validateInput IV hasEnhancedFeatures validation inputValue =
     (if \<not> hasEnhancedFeatures \<or> validation = [] then []
      else validateInput_loop IV validation inputValue [])"

text \<open>\<open>validateInput\<close> of the enhanced-only input: the loop alone.\<close>

definition validateInput_enhanced ::
  "input_validators \<Rightarrow> input_rule list \<Rightarrow> string \<Rightarrow> string list" where
  "validateInput_enhanced IV validation inputValue = validateInput_loop IV validation inputValue []"

text \<open>The checkbox's \<open>ValidationRule\<close>: only \<open>required\<close> and \<open>custom\<close> rules exist.\<close>

datatype checkbox_rule_type = CbRequired | CbCustom

record checkbox_rule =
  c_type :: checkbox_rule_type
  c_message :: string
  c_customValidator :: "(bool \<Rightarrow> bool) option"

definition checkbox_rule_isValid :: "checkbox_rule \<Rightarrow> bool \<Rightarrow> bool" where
  "checkbox_rule_isValid rule chk =
     (case c_type rule of
        CbRequired \<Rightarrow> chk
      | CbCustom \<Rightarrow> (case c_customValidator rule of None \<Rightarrow> True | Some f \<Rightarrow> f chk))"

fun validateCheckbox_loop :: "checkbox_rule list \<Rightarrow> bool \<Rightarrow> string list \<Rightarrow> string list" where
  "validateCheckbox_loop [] chk errs = errs"
| "validateCheckbox_loop (rule # rules) chk errs =
     validateCheckbox_loop rules chk
       (if checkbox_rule_isValid rule chk then errs else errs @ [c_message rule])"

text \<open>\<open>validateCheckbox\<close> of the dual-mode checkbox, and of the enhanced-only one.\<close>

definition validateCheckbox :: "bool \<Rightarrow> checkbox_rule list \<Rightarrow> bool \<Rightarrow> string list" where
  "validateCheckbox hasEnhancedFeatures validation chk =
     (if \<not> hasEnhancedFeatures \<or> validation = [] then []
      else validateCheckbox_loop validation chk [])"

definition validateCheckbox_enhanced :: "checkbox_rule list \<Rightarrow> bool \<Rightarrow> string list" where
  "validateCheckbox_enhanced validation chk = validateCheckbox_loop validation chk []"


section \<open>Feedback state of the input and checkbox components\<close>

text \<open>
  The four components compute the same three flags and the same \<open>currentError\<close> from the
  props \<open>error\<close>, \<open>warning\<close>, \<open>success\<close> and the state \<open>validationErrors\<close>:
  \<open>Boolean(error || validationErrors.length > 0)\<close>, \<open>Boolean(warning && !hasError)\<close>,
  \<open>Boolean(success && !hasError && !hasWarning)\<close>, \<open>error || validationErrors[0]\<close>.
\<close>

record feedback =
  fb_hasError :: bool
  fb_hasWarning :: bool
  fb_hasSuccess :: bool
  fb_currentError :: "string option"

definition feedback_state ::
  "string option \<Rightarrow> string option \<Rightarrow> string option \<Rightarrow> string list \<Rightarrow> feedback" where
  "feedback_state err warning success validationErrs =
     (let hasErr = (str_truthy err \<or> validationErrs \<noteq> []);
          hasWarn = (str_truthy warning \<and> \<not> hasErr);
          hasSucc = (str_truthy success \<and> \<not> hasErr \<and> \<not> hasWarn)
      in \<lparr>fb_hasError = hasErr, fb_hasWarning = hasWarn, fb_hasSuccess = hasSucc,
          fb_currentError =
            (if str_truthy err then err
             else (case validationErrs of [] \<Rightarrow> None | e # es \<Rightarrow> Some e))\<rparr>)"

definition plain_input_rule :: "rule_type \<Rightarrow> string \<Rightarrow> input_rule" where
  "plain_input_rule t m =
     \<lparr>i_type = t, i_message = m, i_value = None, i_pattern = None,
      i_customValidator = None, i_asyncValidator = None\<rparr>"

definition accepting_input_platform :: input_validators where
  "accepting_input_platform =
     \<lparr>i_email = (\<lambda>s. True), i_phone = (\<lambda>s. True), i_url = (\<lambda>s. True)\<rparr>"

definition plain_checkbox_rule :: "checkbox_rule_type \<Rightarrow> string \<Rightarrow> checkbox_rule" where
  "plain_checkbox_rule t m = \<lparr>c_type = t, c_message = m, c_customValidator = None\<rparr>"


section \<open>The checkbox components (\<open>DynCheckbox\<close>, \<open>DynCheckboxEnhanced\<close>)\<close>

text \<open>The props both components read, with the defaults of the destructuring applied.\<close>

record checkbox_props =
  p_checked :: "bool option"
  p_defaultChecked :: bool
  p_disabled :: bool
  p_readonly :: bool
  p_indeterminate :: bool
  p_label :: "string option"
  p_description :: "string option"
  p_error :: "string option"
  p_warning :: "string option"
  p_success :: "string option"
  p_validation :: "checkbox_rule list"
  p_loading :: bool

text \<open>The \<open>useState\<close> cells of a mounted checkbox.\<close>

record checkbox_state =
  checked :: bool
  isIndeterminate :: bool
  validationErrors :: "string list"
  hasInteracted :: bool

text \<open>A call of the host's \<open>onChange(checked, indeterminate?)\<close>.\<close>

type_synonym onChange_call = "bool \<times> bool option"

datatype visual_state = VLoading | VIndeterminate | VChecked | VUnchecked

definition initial_state :: "checkbox_props \<Rightarrow> checkbox_state" where
  "initial_state p =
     \<lparr>checked = (case p_checked p of Some b \<Rightarrow> b | None \<Rightarrow> p_defaultChecked p),
      isIndeterminate = p_indeterminate p,
      validationErrors = [],
      hasInteracted = False\<rparr>"

subsection \<open>Dual-mode \<open>DynCheckbox\<close>\<close>

definition hasEnhancedFeatures :: "checkbox_props \<Rightarrow> bool" where
  "hasEnhancedFeatures p =
     (p_indeterminate p \<or> str_truthy (p_label p) \<or> str_truthy (p_description p)
      \<or> str_truthy (p_error p) \<or> str_truthy (p_warning p) \<or> str_truthy (p_success p)
      \<or> p_validation p \<noteq> [] \<or> p_loading p)"

text \<open>
  \<open>handleChange\<close> with \<open>event.target.checked\<close> as its third argument: the guard returns
  early; otherwise the state is updated and \<open>onChange\<close> is called once.
\<close>

definition DynCheckbox_handleChange ::
  "checkbox_props \<Rightarrow> checkbox_state \<Rightarrow> bool \<Rightarrow> checkbox_state \<times> onChange_call list" where
  "DynCheckbox_handleChange p st target_checked =
     (if p_readonly p \<or> p_disabled p \<or> p_loading p then (st, [])
      else
        (let newChecked = target_checked;
             st1 = st\<lparr>checked := newChecked\<rparr>
         in if hasEnhancedFeatures p
            then (st1\<lparr>isIndeterminate := False, hasInteracted := True,
                       validationErrors :=
                         validateCheckbox (hasEnhancedFeatures p) (p_validation p) newChecked\<rparr>,
                  [(newChecked, Some False)])
            else (st1, [(newChecked, None)])))"

text \<open>
  A native toggle: the control shows the state's \<open>checked\<close> (\<open>checked={checked}\<close>), so
  the change event of one click carries its negation.
\<close>

definition DynCheckbox_toggle_by_user ::
  "checkbox_props \<Rightarrow> checkbox_state \<Rightarrow> checkbox_state \<times> onChange_call list" where
  "DynCheckbox_toggle_by_user p st = DynCheckbox_handleChange p st (\<not> checked st)"

text \<open>
  The two synchronising effects, run after a render with props \<open>p\<close>. An effect runs on
  mount (\<open>prev = None\<close>) and when one of its dependencies differs from the previous
  render's: \<open>[checkedProp]\<close> for the first, \<open>[indeterminate, hasEnhancedFeatures]\<close> for
  the second.
\<close>

definition DynCheckbox_effects ::
  "checkbox_props option \<Rightarrow> checkbox_props \<Rightarrow> checkbox_state \<Rightarrow> checkbox_state" where
  "DynCheckbox_effects prev p st =
     (let run1 = (case prev of None \<Rightarrow> True | Some q \<Rightarrow> p_checked q \<noteq> p_checked p);
          run2 = (case prev of
                    None \<Rightarrow> True
                  | Some q \<Rightarrow> p_indeterminate q \<noteq> p_indeterminate p
                             \<or> hasEnhancedFeatures q \<noteq> hasEnhancedFeatures p);
          st1 = (if run1 then (case p_checked p of Some b \<Rightarrow> st\<lparr>checked := b\<rparr> | None \<Rightarrow> st)
                 else st)
      in if run2 \<and> hasEnhancedFeatures p then st1\<lparr>isIndeterminate := p_indeterminate p\<rparr>
         else st1)"

definition DynCheckbox_getVisualState :: "checkbox_props \<Rightarrow> checkbox_state \<Rightarrow> visual_state" where
  "DynCheckbox_getVisualState p st =
     (if p_loading p then VLoading
      else if hasEnhancedFeatures p \<and> isIndeterminate st then VIndeterminate
      else if checked st then VChecked
      else VUnchecked)"

subsection \<open>Enhanced-only \<open>DynCheckboxEnhanced\<close>\<close>

definition DynCheckboxEnhanced_handleChange ::
  "checkbox_props \<Rightarrow> checkbox_state \<Rightarrow> bool \<Rightarrow> checkbox_state \<times> onChange_call list" where
  "DynCheckboxEnhanced_handleChange p st target_checked =
     (if p_readonly p \<or> p_disabled p \<or> p_loading p then (st, [])
      else
        (let newChecked = target_checked
         in (st\<lparr>checked := newChecked, isIndeterminate := False, hasInteracted := True,
                 validationErrors := validateCheckbox_enhanced (p_validation p) newChecked\<rparr>,
             [(newChecked, Some False)])))"

definition DynCheckboxEnhanced_toggle_by_user ::
  "checkbox_props \<Rightarrow> checkbox_state \<Rightarrow> checkbox_state \<times> onChange_call list" where
  "DynCheckboxEnhanced_toggle_by_user p st =
     DynCheckboxEnhanced_handleChange p st (\<not> checked st)"

text \<open>\<open>handleKeyDown\<close> with \<open>event.key\<close> as its third argument.\<close>

definition DynCheckboxEnhanced_handleKeyDown ::
  "checkbox_props \<Rightarrow> checkbox_state \<Rightarrow> string \<Rightarrow> checkbox_state \<times> onChange_call list" where
  "DynCheckboxEnhanced_handleKeyDown p st key =
     (if key = '' '' \<or> key = ''Enter'' then
        (if p_readonly p \<or> p_disabled p \<or> p_loading p then (st, [])
         else
           (let newChecked = (\<not> checked st)
            in (st\<lparr>checked := newChecked, isIndeterminate := False, hasInteracted := True,
                    validationErrors := validateCheckbox_enhanced (p_validation p) newChecked\<rparr>,
                [(newChecked, Some False)])))
      else (st, []))"

definition DynCheckboxEnhanced_effects ::
  "checkbox_props option \<Rightarrow> checkbox_props \<Rightarrow> checkbox_state \<Rightarrow> checkbox_state" where
  "DynCheckboxEnhanced_effects prev p st =
     (let run1 = (case prev of None \<Rightarrow> True | Some q \<Rightarrow> p_checked q \<noteq> p_checked p);
          run2 = (case prev of None \<Rightarrow> True | Some q \<Rightarrow> p_indeterminate q \<noteq> p_indeterminate p);
          st1 = (if run1 then (case p_checked p of Some b \<Rightarrow> st\<lparr>checked := b\<rparr> | None \<Rightarrow> st)
                 else st)
      in if run2 then st1\<lparr>isIndeterminate := p_indeterminate p\<rparr> else st1)"

definition DynCheckboxEnhanced_getVisualState ::
  "checkbox_props \<Rightarrow> checkbox_state \<Rightarrow> visual_state" where
  "DynCheckboxEnhanced_getVisualState p st =
     (if p_loading p then VLoading
      else if isIndeterminate st then VIndeterminate
      else if checked st then VChecked
      else VUnchecked)"

text \<open>Concrete props used in the examples below.\<close>

definition indeterminate_props :: checkbox_props where
  "indeterminate_props =
     \<lparr>p_checked = None, p_defaultChecked = False, p_disabled = False, p_readonly = False,
      p_indeterminate = True, p_label = None, p_description = None, p_error = None,
      p_warning = None, p_success = None, p_validation = [], p_loading = False\<rparr>"

definition readonly_indeterminate_props :: checkbox_props where
  "readonly_indeterminate_props = indeterminate_props\<lparr>p_readonly := True\<rparr>"

definition determinate_props :: checkbox_props where
  "determinate_props = indeterminate_props\<lparr>p_indeterminate := False\<rparr>"

definition controlled_indeterminate_props :: checkbox_props where
  "controlled_indeterminate_props = indeterminate_props\<lparr>p_checked := Some False\<rparr>"

section \<open>The enhanced data table (\<open>DynTableEnhanced\<close>)\<close>



datatype direction = Asc | Desc


record 'r selection_config =
  selectedRowKeys :: "string list"
  getRowKey :: "'r \<Rightarrow> string"
  has_onSelect :: bool
















text \<open>The header checkbox: \<open>selectionState\<close> and \<open>handleSelectAll\<close>.\<close>

record header_state =
  header_checked :: bool
  header_indeterminate :: bool

definition selectionState :: "'r selection_config option \<Rightarrow> 'r list \<Rightarrow> header_state" where
  "selectionState rowSelection dataSource =
     (case rowSelection of
        None \<Rightarrow> \<lparr>header_checked = False, header_indeterminate = False\<rparr>
      | Some sel \<Rightarrow>
          if dataSource = [] then \<lparr>header_checked = False, header_indeterminate = False\<rparr>
          else
            (let selectedCount = length (selectedRowKeys sel);
                 totalCount = length dataSource
             in \<lparr>header_checked = (selectedCount = totalCount),
                 header_indeterminate = (selectedCount > 0 \<and> selectedCount < totalCount)\<rparr>))"

text \<open>
  \<open>handleSelectAll\<close>: the list of calls made to \<open>rowSelection.onSelect\<close>, each with the
  keys and the rows passed; no call without \<open>rowSelection\<close> or without \<open>onSelect\<close>.
\<close>

definition handleSelectAll ::
  "'r selection_config option \<Rightarrow> 'r list \<Rightarrow> bool \<Rightarrow> (string list \<times> 'r list) list" where
  "handleSelectAll rowSelection dataSource selected =
     (case rowSelection of
        None \<Rightarrow> []
      | Some sel \<Rightarrow>
          (let allRowKeys = map (getRowKey sel) dataSource;
               newSelectedKeys = (if selected then allRowKeys else []);
               selectedRows = (if selected then dataSource else [])
           in if has_onSelect sel then [(newSelectedKeys, selectedRows)] else []))"

text \<open>
  The header checkbox is a \<open>DynCheckboxEnhanced\<close> rendered with
  \<open>checked = selectionState.checked\<close>, \<open>indeterminate = selectionState.indeterminate\<close>
  and \<open>onChange = handleSelectAll\<close>; its other props take their defaults.
\<close>

definition header_checkbox_props :: "'r selection_config option \<Rightarrow> 'r list \<Rightarrow> checkbox_props" where
  "header_checkbox_props rowSelection dataSource =
     \<lparr>p_checked = Some (header_checked (selectionState rowSelection dataSource)),
      p_defaultChecked = False, p_disabled = False, p_readonly = False,
      p_indeterminate = header_indeterminate (selectionState rowSelection dataSource),
      p_label = None, p_description = None, p_error = None, p_warning = None,
      p_success = None, p_validation = [], p_loading = False\<rparr>"

text \<open>
  One toggle of the header checkbox by the user, in the checkbox's own state \<open>st\<close>:
  every call \<open>onChange(checked, indeterminate)\<close> the checkbox makes is a call
  \<open>handleSelectAll(checked)\<close>. The result is the checkbox's new state and the calls made
  to \<open>onSelect\<close>.
\<close>

definition header_toggle ::
  "'r selection_config option \<Rightarrow> 'r list \<Rightarrow> checkbox_state
     \<Rightarrow> checkbox_state \<times> (string list \<times> 'r list) list" where
  "header_toggle rowSelection dataSource st =
     (case DynCheckboxEnhanced_toggle_by_user (header_checkbox_props rowSelection dataSource) st of
        (st', calls) \<Rightarrow>
          (st', concat (map (\<lambda>(c, i). handleSelectAll rowSelection dataSource c) calls)))"

text \<open>The header checkbox's state right after it is mounted.\<close>

definition header_mounted :: "'r selection_config option \<Rightarrow> 'r list \<Rightarrow> checkbox_state" where
  "header_mounted rowSelection dataSource =
     DynCheckboxEnhanced_effects None (header_checkbox_props rowSelection dataSource)
       (initial_state (header_checkbox_props rowSelection dataSource))"

text \<open>Concrete inputs used in the examples below.\<close>

definition empty_selection :: "string selection_config" where
  "empty_selection = \<lparr>selectedRowKeys = [], getRowKey = (\<lambda>r. r), has_onSelect = True\<rparr>"

definition one_of_two_selected :: "string selection_config" where
  "one_of_two_selected = \<lparr>selectedRowKeys = [''a''], getRowKey = (\<lambda>r. r), has_onSelect = True\<rparr>"














section \<open>Properties of masking\<close>

lemma length_ten_cases:
  "length (ds :: 'a list) = 10 \<Longrightarrow> \<exists>a b c d e f g h i j. ds = [a, b, c, d, e, f, g, h, i, j]"
  by (simp add: numeral_eq_Suc length_Suc_conv) blast

lemma digit_not_phone_literal:
  "is_digit c \<Longrightarrow> c \<noteq> CHR ''('' \<and> c \<noteq> CHR '')'' \<and> c \<noteq> CHR '' '' \<and> c \<noteq> CHR ''-''"
  by (auto simp: is_digit_def)

lemma applyMask_phone_digits:
  assumes "is_digit a" "is_digit b" "is_digit c" "is_digit d" "is_digit e"
    "is_digit f" "is_digit g" "is_digit h" "is_digit i" "is_digit j"
  shows "applyMask [a, b, c, d, e, f, g, h, i, j] phone_mask =
         [CHR ''('', a, b, c, CHR '')'', CHR '' '', d, e, f, CHR ''-'', g, h, i, j]"
  using assms by (simp add: applyMask_def phone_mask_def)

lemma removeMask_phone_digits:
  assumes "is_digit a" "is_digit b" "is_digit c" "is_digit d" "is_digit e"
    "is_digit f" "is_digit g" "is_digit h" "is_digit i" "is_digit j"
  shows "removeMask [CHR ''('', a, b, c, CHR '')'', CHR '' '', d, e, f, CHR ''-'', g, h, i, j]
           phone_mask = [a, b, c, d, e, f, g, h, i, j]"
  using assms [THEN digit_not_phone_literal] by (simp add: removeMask_def phone_mask_def)

text \<open>
  C1. With the mask \<open>(999) 999-9999\<close>, the digits \<open>1234567890\<close> are displayed as
  \<open>(123) 456-7890\<close>, removing the mask from that display gives \<open>1234567890\<close> back, and
  for every string of ten digits \<open>removeMask (applyMask digits mask) mask = digits\<close>;
  \<open>handleChange\<close> shows the masked value and reports the digits.
\<close>

theorem mask_round_trip:
  "applyMask ''1234567890'' phone_mask = ''(123) 456-7890''
   \<and> removeMask ''(123) 456-7890'' phone_mask = ''1234567890''
   \<and> (length ds = 10 \<and> list_all is_digit ds \<longrightarrow>
        removeMask (applyMask ds phone_mask) phone_mask = ds
        \<and> handleChange_values (Some phone_mask) ds = (applyMask ds phone_mask, ds))"
proof (intro conjI impI)
  show "applyMask ''1234567890'' phone_mask = ''(123) 456-7890''"
    by (simp add: applyMask_def phone_mask_def is_digit_def)
  show "removeMask ''(123) 456-7890'' phone_mask = ''1234567890''"
    by (simp add: removeMask_def phone_mask_def)
next
  assume hyp: "length ds = 10 \<and> list_all is_digit ds"
  then have len: "length ds = 10"
    by simp
  obtain a b c d e f g h i j where ds: "ds = [a, b, c, d, e, f, g, h, i, j]"
    using length_ten_cases [OF len] by blast
  have dg: "is_digit a" "is_digit b" "is_digit c" "is_digit d" "is_digit e"
    "is_digit f" "is_digit g" "is_digit h" "is_digit i" "is_digit j"
    using hyp ds by simp_all
  show rt: "removeMask (applyMask ds phone_mask) phone_mask = ds"
    unfolding ds by (simp only: applyMask_phone_digits [OF dg] removeMask_phone_digits [OF dg])
  have keep: "filter is_digit ds = ds"
    using dg by (simp add: ds)
  have ne: "phone_mask \<noteq> []"
    by (simp add: phone_mask_def)
  show "handleChange_values (Some phone_mask) ds = (applyMask ds phone_mask, ds)"
    using rt by (simp add: handleChange_values_def keep ne Let_def)
qed

theorem mask_round_trip_witness:
  "length ''5550001234'' = 10 \<and> list_all is_digit ''5550001234''
   \<and> removeMask (applyMask ''5550001234'' phone_mask) phone_mask = ''5550001234''
   \<and> handleChange_values (Some phone_mask) ''5550001234'' = (''(555) 000-1234'', ''5550001234'')"
proof -
  have d: "length ''5550001234'' = 10 \<and> list_all is_digit ''5550001234''"
    by (simp add: is_digit_def)
  have a: "applyMask ''5550001234'' phone_mask = ''(555) 000-1234''"
    by (simp add: applyMask_def phone_mask_def is_digit_def)
  show ?thesis
    using d a mask_round_trip [of "''5550001234''"] by simp
qed


section \<open>Properties of token-key sanitization\<close>

lemma token_char_not_space: "token_char c \<Longrightarrow> \<not> is_space c"
  by (auto simp: token_char_def is_space_def Let_def)

lemma token_char_lower: "token_char c \<Longrightarrow> toLowerCase_char c = c"
  by (auto simp: token_char_def toLowerCase_char_def Let_def)

lemma trim_token_chars: "list_all token_char s \<Longrightarrow> trim s = s"
proof (cases s rule: rev_cases)
  case Nil
  then show ?thesis by (simp add: trim_def)
next
  case (snoc ys y)
  assume a: "list_all token_char s"
  then have "\<not> is_space y"
    using snoc token_char_not_space by simp
  moreover have "dropWhile is_space s = s"
    using a token_char_not_space by (cases s) auto
  ultimately show ?thesis
    using snoc by (simp add: trim_def)
qed

lemma toLowerCase_token_chars: "list_all token_char s \<Longrightarrow> toLowerCase s = s"
  by (induction s) (auto simp: toLowerCase_def token_char_lower)

lemma replace_invalid_token_chars: "list_all token_char s \<Longrightarrow> replace_invalid s = s"
  by (induction s) (auto simp: replace_invalid_def)

lemma collapse_dashes_none: "no_double_dash s \<Longrightarrow> collapse_dashes s = s"
  by (induction s rule: collapse_dashes.induct) auto

lemma strip_edge_dashes_none:
  "(s \<noteq> [] \<longrightarrow> hd s \<noteq> CHR ''-'' \<and> last s \<noteq> CHR ''-'') \<Longrightarrow> strip_edge_dashes s = s"
  by (cases s) (auto simp: strip_edge_dashes_def)

text \<open>
  C9. Sanitizing a key that is already in sanitized form (only characters of
  \<open>[a-z0-9_-]\<close>, hence lower case; no dash at either end; no two dashes in a row)
  returns the same key.
\<close>

theorem sanitizeTokenKey_idempotent:
  "sanitized_form key \<Longrightarrow> sanitizeTokenKey key = key"
  by (simp add: sanitized_form_def sanitizeTokenKey_def trim_token_chars
      toLowerCase_token_chars replace_invalid_token_chars collapse_dashes_none
      strip_edge_dashes_none)

theorem sanitizeTokenKey_idempotent_witness:
  "sanitized_form ''color-primary_500''
   \<and> sanitizeTokenKey ''color-primary_500'' = ''color-primary_500''"
  using sanitizeTokenKey_idempotent [of "''color-primary_500''"]
  by (simp add: sanitized_form_def token_char_def)


section \<open>Properties of the validation hook\<close>

lemma validateRule_cases:
  "validateRule V fd rule v = Returns ([], None)
   \<or> validateRule V fd rule v = Returns ([], Some (message rule))
   \<or> validateRule V fd rule v = Returns ([ConsoleError (rtype rule)], Some (message rule))
   \<or> (\<exists>t. validateRule V fd rule v = Returns ([ConsoleWarn (OtherType t)], None))"
  by (auto simp: validateRule_def validateRule_try_def split: rule_type.splits outcome.splits)

lemma validateRule_error:
  "validateRule V fd rule v = Returns (d, e) \<Longrightarrow> e = None \<or> e = Some (message rule)"
  using validateRule_cases [of V fd rule v] by auto

lemma validateRule_Returns: "\<exists>d e. validateRule V fd rule v = Returns (d, e)"
  using validateRule_cases [of V fd rule v] by auto

lemma validate_loop_Returns:
  "\<exists>es ds. validate_loop V opts fd v rules acc lg = Returns (acc @ es, lg @ ds)
     \<and> set es \<subseteq> message ` set rules"
proof (induction rules arbitrary: acc lg)
  case Nil
  then show ?case by simp
next
  case (Cons rule rules)
  obtain d e where r: "validateRule V fd rule v = Returns (d, e)"
    using validateRule_Returns by blast
  have e: "e = None \<or> e = Some (message rule)"
    using validateRule_error [OF r] .
  show ?case
  proof (cases "str_truthy e")
    case False
    obtain es ds where "validate_loop V opts fd v rules acc (lg @ d) = Returns (acc @ es, (lg @ d) @ ds)"
      "set es \<subseteq> message ` set rules"
      using Cons.IH by blast
    then show ?thesis using r False by auto
  next
    case True
    then have pe: "present e = [message rule]" using e by (cases e) auto
    show ?thesis
    proof (cases "stopOnFirstError opts")
      case True
      then show ?thesis using r \<open>str_truthy e\<close> pe by auto
    next
      case False
      obtain es ds where "validate_loop V opts fd v rules (acc @ [message rule]) (lg @ d) = Returns ((acc @ [message rule]) @ es, (lg @ d) @ ds)"
        "set es \<subseteq> message ` set rules"
        using Cons.IH by blast
      then show ?thesis using r \<open>str_truthy e\<close> pe False by auto
    qed
  qed
qed

lemma validator_throws_try:
  "validator_throws rule v fd \<Longrightarrow> validateRule_try V fd rule v = Raises"
  by (auto simp: validator_throws_def validateRule_try_def switch_isValid_def
      split: rule_type.splits option.splits)

lemma validator_throws_validateRule:
  "validator_throws rule v fd \<Longrightarrow>
   validateRule V fd rule v = Returns ([ConsoleError (rtype rule)], Some (message rule))"
  by (simp add: validateRule_def validator_throws_try)

lemma validate_loop_reaches:
  assumes r: "validateRule V fd rule v = Returns (d0, Some (message rule))"
    and m: "message rule \<noteq> []"
    and p: "stopOnFirstError opts \<longrightarrow> list_all (rule_passes V fd v) pre"
  shows "\<exists>es ds. validate_loop V opts fd v (pre @ rule # post) acc lg = Returns (es, ds)
           \<and> message rule \<in> set es \<and> set d0 \<subseteq> set ds"
  using p
proof (induction pre arbitrary: acc lg)
  case Nil
  show ?case
  proof (cases "stopOnFirstError opts")
    case True
    then show ?thesis using r m by simp
  next
    case False
    obtain es ds where
      "validate_loop V opts fd v post (acc @ [message rule]) (lg @ d0) =
       Returns ((acc @ [message rule]) @ es, (lg @ d0) @ ds)"
      using validate_loop_Returns by blast
    then show ?thesis using r m False by auto
  qed
next
  case (Cons q pre)
  obtain d e where q: "validateRule V fd q v = Returns (d, e)"
    using validateRule_Returns by blast
  have rest: "stopOnFirstError opts \<longrightarrow> list_all (rule_passes V fd v) pre"
    using Cons.prems by simp
  show ?case
  proof (cases "str_truthy e")
    case False
    then show ?thesis using q Cons.IH [OF rest] by simp
  next
    case True
    then have "\<not> rule_passes V fd v q"
      using q by (simp add: rule_passes_def)
    then have "\<not> stopOnFirstError opts"
      using Cons.prems by auto
    then show ?thesis using q True Cons.IH [OF rest] by simp
  qed
qed

lemma validate_Returns: "\<exists>st' lg ok. validate V opts fd rules v st = Returns (st', lg, ok)"
proof -
  obtain es ds where
    "validate_loop V opts fd v rules (present (customError st)) [] =
     Returns (present (customError st) @ es, [] @ ds)"
    using validate_loop_Returns by blast
  then show ?thesis by (auto simp: validate_def)
qed

text \<open>
  C5. When a custom error is present (a non-empty message set through \<open>setCustomError\<close>,
  the test the hook itself applies), it is the first entry of the returned \<open>errors\<close>, in
  front of the stored rule errors, and \<open>errorMessage\<close> is that entry. This holds right
  after \<open>setCustomError\<close> and in every later state that still holds the custom error.
\<close>

theorem custom_error_first:
  assumes "m \<noteq> []"
  shows "customError (setCustomErrorHandler (Some m) st) = Some m
     \<and> allErrors (setCustomErrorHandler (Some m) st) = m # errors st
     \<and> errorMessage (setCustomErrorHandler (Some m) st) = Some m
     \<and> (\<forall>s. customError s = Some m \<longrightarrow> allErrors s = m # errors s \<and> errorMessage s = Some m)"
  using assms by (simp add: setCustomErrorHandler_def allErrors_def errorMessage_def)

theorem custom_error_first_witness:
  "''Taken'' \<noteq> []
   \<and> allErrors (setCustomErrorHandler (Some ''Taken'') (idle_hook\<lparr>errors := [''Needed'']\<rparr>))
       = [''Taken'', ''Needed'']
   \<and> errorMessage (setCustomErrorHandler (Some ''Taken'') (idle_hook\<lparr>errors := [''Needed'']\<rparr>))
       = Some ''Taken''"
  using custom_error_first [of "''Taken''" "idle_hook\<lparr>errors := [''Needed'']\<rparr>"]
  by (simp add: idle_hook_def)

text \<open>
  C10. When \<open>validate\<close> completes while a custom error is set, the stored error list
  starts with the custom error (pushed by \<open>validate\<close>), followed by messages of the
  rules, and the returned \<open>errors\<close> prepend it once more: the custom error is at
  position 0 and again at position 1.
\<close>

theorem custom_error_duplicated:
  assumes "customError st = Some m" and "m \<noteq> []"
  shows "\<exists>st' lg es. validate V opts fd rules v st = Returns (st', lg, False)
           \<and> errors st' = m # es \<and> set es \<subseteq> message ` set rules
           \<and> allErrors st' = m # m # es"
proof -
  obtain es ds where l: "validate_loop V opts fd v rules [m] [] = Returns ([m] @ es, [] @ ds)"
    and sub: "set es \<subseteq> message ` set rules"
    using validate_loop_Returns by blast
  have "validate V opts fd rules v st =
        Returns (st\<lparr>errors := m # es, isValidating := False, hasValidated := True\<rparr>, ds, False)"
    using assms l by (simp add: validate_def)
  then show ?thesis
    using assms sub by (simp add: allErrors_def)
qed

theorem custom_error_duplicated_witness:
  "customError (idle_hook\<lparr>customError := Some ''Taken''\<rparr>) = Some ''Taken'' \<and> ''Taken'' \<noteq> []
   \<and> (\<exists>st' lg. validate accepting_platform DEFAULT_OPTIONS JUndefined
          [plain_rule Required ''Needed''] (JStr []) (idle_hook\<lparr>customError := Some ''Taken''\<rparr>)
          = Returns (st', lg, False)
        \<and> errors st' = [''Taken'', ''Needed'']
        \<and> allErrors st' = [''Taken'', ''Taken'', ''Needed''])"
proof -
  have c: "customError (idle_hook\<lparr>customError := Some ''Taken''\<rparr>) = Some ''Taken''"
    and n: "''Taken'' \<noteq> []"
    by (simp_all add: idle_hook_def)
  have v: "validate accepting_platform DEFAULT_OPTIONS JUndefined
          [plain_rule Required ''Needed''] (JStr []) (idle_hook\<lparr>customError := Some ''Taken''\<rparr>)
          = Returns (idle_hook\<lparr>customError := Some ''Taken'', errors := [''Taken'', ''Needed''],
                       hasValidated := True\<rparr>, [], False)"
    by (simp add: validate_def validateRule_def validateRule_try_def switch_isValid_def
        plain_rule_def idle_hook_def DEFAULT_OPTIONS_def trim_def)
  show ?thesis
    using custom_error_duplicated [OF c n, of accepting_platform DEFAULT_OPTIONS JUndefined
        "[plain_rule Required ''Needed'']" "JStr []"] c v
    by (auto simp: allErrors_def)
qed

text \<open>
  What \<open>validate\<close> does when a rule's validator throws and the rule's message is not
  empty (with \<open>stopOnFirstError\<close>, the rules before it pass, so that it is reached):
  \<open>validateRule\<close> catches the throw, logs one \<open>console.error\<close> and returns the rule's
  message; \<open>validate\<close> records that message and resolves to \<open>false\<close>. And \<open>validate\<close>
  returns for all rules and states: no throw leaves it.
\<close>

lemma thrown_validator_nonempty_recorded:
  assumes "validator_throws rule v fd"
    and "message rule \<noteq> []"
    and "stopOnFirstError opts \<longrightarrow> list_all (rule_passes V fd v) pre"
  shows "validateRule V fd rule v = Returns ([ConsoleError (rtype rule)], Some (message rule))
     \<and> (\<exists>st' lg. validate V opts fd (pre @ rule # post) v st = Returns (st', lg, False)
           \<and> message rule \<in> set (errors st') \<and> ConsoleError (rtype rule) \<in> set lg)
     \<and> (\<forall>rules s. \<exists>st' lg ok. validate V opts fd rules v s = Returns (st', lg, ok))"
proof (intro conjI allI)
  show r: "validateRule V fd rule v = Returns ([ConsoleError (rtype rule)], Some (message rule))"
    using assms(1) by (rule validator_throws_validateRule)
  obtain es ds where l:
    "validate_loop V opts fd v (pre @ rule # post) (present (customError st)) [] = Returns (es, ds)"
    and mem: "message rule \<in> set es" and lg: "set [ConsoleError (rtype rule)] \<subseteq> set ds"
    using validate_loop_reaches [OF r assms(2) assms(3)] by blast
  have "es \<noteq> []" using mem by auto
  then have "validate V opts fd (pre @ rule # post) v st =
        Returns (st\<lparr>errors := es, isValidating := False, hasValidated := True\<rparr>, ds, False)"
    using l by (simp add: validate_def)
  then show "\<exists>st' lg. validate V opts fd (pre @ rule # post) v st = Returns (st', lg, False)
           \<and> message rule \<in> set (errors st') \<and> ConsoleError (rtype rule) \<in> set lg"
    using mem lg by simp
next
  fix rules s
  show "\<exists>st' lg ok. validate V opts fd rules v s = Returns (st', lg, ok)"
    by (rule validate_Returns)
qed

lemma thrown_validator_nonempty_example:
  "validator_throws (throwing_rule ''Invalid'') (JStr ''x'') JUndefined
   \<and> validate accepting_platform DEFAULT_OPTIONS JUndefined
        [plain_rule Required ''Needed'', throwing_rule ''Invalid''] (JStr ''x'') idle_hook =
     Returns (idle_hook\<lparr>errors := [''Invalid''], hasValidated := True\<rparr>, [ConsoleError Custom], False)"
proof -
  have t: "validator_throws (throwing_rule ''Invalid'') (JStr ''x'') JUndefined"
    by (simp add: validator_throws_def throwing_rule_def plain_rule_def always_raises_def)
  have m: "message (throwing_rule ''Invalid'') \<noteq> []"
    by (simp add: throwing_rule_def plain_rule_def)
  have p: "stopOnFirstError DEFAULT_OPTIONS \<longrightarrow>
           list_all (rule_passes accepting_platform JUndefined (JStr ''x'')) [plain_rule Required ''Needed'']"
    by (simp add: DEFAULT_OPTIONS_def)
  have e: "validate accepting_platform DEFAULT_OPTIONS JUndefined
        [plain_rule Required ''Needed'', throwing_rule ''Invalid''] (JStr ''x'') idle_hook =
     Returns (idle_hook\<lparr>errors := [''Invalid''], hasValidated := True\<rparr>, [ConsoleError Custom], False)"
    by (simp add: throwing_rule_def plain_rule_def always_raises_def
      validate_def validateRule_def validateRule_try_def switch_isValid_def idle_hook_def
      DEFAULT_OPTIONS_def trim_def is_space_def)
  show ?thesis
    using thrown_validator_nonempty_recorded [OF t m p, of "[]" idle_hook] t e by simp
qed

text \<open>
  C6. What the code does at a rule whose validator throws and whose configured message
  is the empty string: \<open>validateRule\<close> catches the throw, logs it and returns the
  message to mark the rule as failed, but \<open>validate\<close> keeps a returned message only
  when it is truthy, so the failure is dropped: no error is recorded and \<open>validate\<close>
  resolves to \<open>true\<close>. The same test drops every failed rule with an empty message (a
  \<open>required\<close> rule on an empty value), whereas the inputs' inline validator pushes the
  message of a failed rule whatever it is, and the component then shows an error.
\<close>

theorem thrown_validator_empty_message_dropped:
  assumes "validator_throws rule v fd" and "message rule = []" and "customError st = None"
  shows "validateRule V fd rule v = Returns ([ConsoleError (rtype rule)], Some [])
     \<and> validate V opts fd [rule] v st
         = Returns (st\<lparr>errors := [], isValidating := False, hasValidated := True\<rparr>,
                    [ConsoleError (rtype rule)], True)
     \<and> validate accepting_platform DEFAULT_OPTIONS JUndefined [plain_rule Required []] (JStr [])
           idle_hook
         = Returns (idle_hook\<lparr>hasValidated := True\<rparr>, [], True)
     \<and> validateInput accepting_input_platform True [plain_input_rule Required []] [] = [[]]
     \<and> fb_hasError (feedback_state None None None
           (validateInput accepting_input_platform True [plain_input_rule Required []] []))"
proof -
  have r: "validateRule V fd rule v = Returns ([ConsoleError (rtype rule)], Some [])"
    using validator_throws_validateRule [OF assms(1), of V] assms(2) by simp
  have v: "validate V opts fd [rule] v st
         = Returns (st\<lparr>errors := [], isValidating := False, hasValidated := True\<rparr>,
                    [ConsoleError (rtype rule)], True)"
    using r assms(3) by (simp add: validate_def)
  have q: "validate accepting_platform DEFAULT_OPTIONS JUndefined [plain_rule Required []] (JStr [])
           idle_hook
         = Returns (idle_hook\<lparr>hasValidated := True\<rparr>, [], True)"
    by (simp add: validate_def validateRule_def validateRule_try_def switch_isValid_def
        plain_rule_def idle_hook_def DEFAULT_OPTIONS_def trim_def)
  have i: "validateInput accepting_input_platform True [plain_input_rule Required []] [] = [[]]"
    by (simp add: validateInput_def input_rule_isValid_def plain_input_rule_def trim_def)
  have f: "fb_hasError (feedback_state None None None
           (validateInput accepting_input_platform True [plain_input_rule Required []] []))"
    unfolding i by (simp add: feedback_state_def)
  show ?thesis
    using r v q i f by (intro conjI)
qed

theorem thrown_validator_empty_message_dropped_witness:
  "validator_throws (throwing_rule []) (JStr ''x'') JUndefined
   \<and> message (throwing_rule []) = [] \<and> customError idle_hook = None
   \<and> validate accepting_platform DEFAULT_OPTIONS JUndefined [throwing_rule []] (JStr ''x'')
         idle_hook
       = Returns (idle_hook\<lparr>hasValidated := True\<rparr>, [ConsoleError Custom], True)
   \<and> errors (idle_hook\<lparr>hasValidated := True\<rparr>) = []"
proof -
  have t: "validator_throws (throwing_rule []) (JStr ''x'') JUndefined"
    by (simp add: validator_throws_def throwing_rule_def plain_rule_def always_raises_def)
  have m: "message (throwing_rule []) = []"
    by (simp add: throwing_rule_def plain_rule_def)
  have c: "customError idle_hook = None"
    by (simp add: idle_hook_def)
  show ?thesis
    using t m c
      thrown_validator_empty_message_dropped
        [OF t m c, of accepting_platform DEFAULT_OPTIONS]
    by (simp add: idle_hook_def throwing_rule_def plain_rule_def)
qed


section \<open>Properties of the inline validators and of the feedback state\<close>

text \<open>
  C2. What the code does with a rule whose validator is absent. In the hook, \<open>isValid\<close>
  stays \<open>false\<close> for a \<open>custom\<close> rule without \<open>customValidator\<close> and for an \<open>async\<close>
  rule without \<open>asyncValidator\<close>: \<open>validateRule\<close> returns the rule's message and
  \<open>validate\<close> records it. In the inputs' inline validators an \<open>async\<close> rule always
  yields its message. Only a \<open>custom\<close> rule without validator in the inline validators
  of the inputs and checkboxes yields no message.
\<close>

theorem missing_validator_is_failure:
  "validateRule V fd (plain_rule Custom m) v = Returns ([], Some m)
   \<and> validateRule V fd (plain_rule Async m) v = Returns ([], Some m)
   \<and> validate accepting_platform DEFAULT_OPTIONS JUndefined [plain_rule Custom ''Invalid'']
        (JStr ''x'') idle_hook
      = Returns (idle_hook\<lparr>errors := [''Invalid''], hasValidated := True\<rparr>, [], False)
   \<and> validateInput IV True [plain_input_rule Async m] inputValue = [m]
   \<and> validateInput_enhanced IV [plain_input_rule Async m] inputValue = [m]
   \<and> validateInput IV True [plain_input_rule Custom m] inputValue = []
   \<and> validateInput_enhanced IV [plain_input_rule Custom m] inputValue = []
   \<and> validateCheckbox True [plain_checkbox_rule CbCustom m] chk = []
   \<and> validateCheckbox_enhanced [plain_checkbox_rule CbCustom m] chk = []"
  by (simp add: validateRule_def validateRule_try_def switch_isValid_def plain_rule_def
      validate_def idle_hook_def DEFAULT_OPTIONS_def
      validateInput_def validateInput_enhanced_def input_rule_isValid_def plain_input_rule_def
      validateCheckbox_def validateCheckbox_enhanced_def checkbox_rule_isValid_def
      plain_checkbox_rule_def)

theorem missing_validator_is_failure_witness:
  "validateRule accepting_platform JUndefined (plain_rule Custom ''Invalid'') (JStr ''x'')
     = Returns ([], Some ''Invalid'')
   \<and> validateRule accepting_platform JUndefined (plain_rule Async ''Invalid'') (JStr ''x'')
     = Returns ([], Some ''Invalid'')
   \<and> validateInput accepting_input_platform True [plain_input_rule Async ''Invalid''] ''x''
     = [''Invalid'']
   \<and> validateInput accepting_input_platform True [plain_input_rule Custom ''Invalid''] ''x''
     = []
   \<and> validateCheckbox True [plain_checkbox_rule CbCustom ''Invalid''] False = []"
  using missing_validator_is_failure
    [of accepting_platform JUndefined "''Invalid''" "JStr ''x''" accepting_input_platform "''x''" False]
  by simp

text \<open>
  C7. In the input and checkbox components (all four compute the flags by the same
  expressions) the feedback flags follow the priority error, warning, success: an
  \<open>error\<close> prop (a non-empty message, as the components test it) or a validation error
  sets \<open>hasError\<close> and clears the other two; without an error a \<open>warning\<close> sets
  \<open>hasWarning\<close> and clears \<open>hasSuccess\<close>; at most one flag is set; and the message shown
  is the \<open>error\<close> prop when there is one.
\<close>

theorem feedback_priority:
  "(str_truthy err \<or> verrs \<noteq> [] \<longrightarrow>
      fb_hasError (feedback_state err warning success verrs)
      \<and> \<not> fb_hasWarning (feedback_state err warning success verrs)
      \<and> \<not> fb_hasSuccess (feedback_state err warning success verrs))
   \<and> (\<not> (str_truthy err \<or> verrs \<noteq> []) \<and> str_truthy warning \<longrightarrow>
      \<not> fb_hasError (feedback_state err warning success verrs)
      \<and> fb_hasWarning (feedback_state err warning success verrs)
      \<and> \<not> fb_hasSuccess (feedback_state err warning success verrs))
   \<and> (\<not> (str_truthy err \<or> verrs \<noteq> []) \<and> \<not> str_truthy warning \<and> str_truthy success \<longrightarrow>
      \<not> fb_hasError (feedback_state err warning success verrs)
      \<and> \<not> fb_hasWarning (feedback_state err warning success verrs)
      \<and> fb_hasSuccess (feedback_state err warning success verrs))
   \<and> length (filter id [fb_hasError (feedback_state err warning success verrs),
                         fb_hasWarning (feedback_state err warning success verrs),
                         fb_hasSuccess (feedback_state err warning success verrs)]) \<le> 1
   \<and> (str_truthy err \<longrightarrow> fb_currentError (feedback_state err warning success verrs) = err)"
  by (auto simp: feedback_state_def Let_def)

theorem feedback_priority_witness:
  "str_truthy (Some ''E'')
   \<and> feedback_state (Some ''E'') (Some ''W'') (Some ''S'') []
      = \<lparr>fb_hasError = True, fb_hasWarning = False, fb_hasSuccess = False,
         fb_currentError = Some ''E''\<rparr>
   \<and> feedback_state None (Some ''W'') (Some ''S'') []
      = \<lparr>fb_hasError = False, fb_hasWarning = True, fb_hasSuccess = False,
         fb_currentError = None\<rparr>
   \<and> feedback_state None None (Some ''S'') []
      = \<lparr>fb_hasError = False, fb_hasWarning = False, fb_hasSuccess = True,
         fb_currentError = None\<rparr>
   \<and> feedback_state None (Some ''W'') (Some ''S'') [''Needed'']
      = \<lparr>fb_hasError = True, fb_hasWarning = False, fb_hasSuccess = False,
         fb_currentError = Some ''Needed''\<rparr>"
  using feedback_priority [of "Some ''E''" "[]" "Some ''W''" "Some ''S''"]
    feedback_priority [of None "[]" "Some ''W''" "Some ''S''"]
    feedback_priority [of None "[]" None "Some ''S''"]
    feedback_priority [of None "[''Needed'']" "Some ''W''" "Some ''S''"]
  by (simp add: feedback_state_def Let_def)


section \<open>Properties of the checkbox components\<close>

lemma hasEnhancedFeatures_indeterminate: "p_indeterminate p \<Longrightarrow> hasEnhancedFeatures p"
  by (simp add: hasEnhancedFeatures_def)

text \<open>
  C8, as stated, at a read-only checkbox rendered with \<open>indeterminate\<close>: the handlers
  return at their guard, so a toggle or a key press changes nothing and reports nothing.
  And after a toggle has cleared the state of a checkbox that is not read-only, a render
  that supplies the same \<open>indeterminate\<close> prop again does not re-apply it: the effect
  runs only when the prop has changed.
\<close>

theorem indeterminate_not_cleared_counterexample:
  "isIndeterminate (initial_state readonly_indeterminate_props)
   \<and> DynCheckbox_toggle_by_user readonly_indeterminate_props
        (initial_state readonly_indeterminate_props)
      = (initial_state readonly_indeterminate_props, [])
   \<and> DynCheckboxEnhanced_toggle_by_user readonly_indeterminate_props
        (initial_state readonly_indeterminate_props)
      = (initial_state readonly_indeterminate_props, [])
   \<and> DynCheckboxEnhanced_handleKeyDown readonly_indeterminate_props
        (initial_state readonly_indeterminate_props) '' ''
      = (initial_state readonly_indeterminate_props, [])
   \<and> \<not> isIndeterminate
        (DynCheckbox_effects (Some indeterminate_props) indeterminate_props
           (fst (DynCheckbox_toggle_by_user indeterminate_props
                   (initial_state indeterminate_props))))
   \<and> \<not> isIndeterminate
        (DynCheckboxEnhanced_effects (Some indeterminate_props) indeterminate_props
           (fst (DynCheckboxEnhanced_toggle_by_user indeterminate_props
                   (initial_state indeterminate_props))))"
  by (simp add: readonly_indeterminate_props_def indeterminate_props_def initial_state_def
      DynCheckbox_toggle_by_user_def DynCheckbox_handleChange_def
      DynCheckboxEnhanced_toggle_by_user_def DynCheckboxEnhanced_handleChange_def
      DynCheckboxEnhanced_handleKeyDown_def DynCheckbox_effects_def
      DynCheckboxEnhanced_effects_def hasEnhancedFeatures_def validateCheckbox_def
      validateCheckbox_enhanced_def)

text \<open>
  C8, amended. For a checkbox of either variant rendered with \<open>indeterminate\<close> set that
  is not read-only, disabled or loading, one user interaction (a native toggle, or a
  Space or Enter key press in the enhanced-only variant) clears the indeterminate state,
  flips \<open>checked\<close> and reports \<open>onChange(newChecked, false)\<close>; the visual state is then
  not \<open>indeterminate\<close>. A later render in which the \<open>indeterminate\<close> prop has changed
  to set re-applies the state, and the next interaction clears it again; a render in
  which the \<open>indeterminate\<close> prop is unchanged, whatever else has changed, leaves the
  indeterminate state as it is, and a render with unchanged props leaves the whole state
  as it is.
\<close>

theorem indeterminate_cleared_by_interaction:
  assumes "p_indeterminate p" and "\<not> p_readonly p" and "\<not> p_disabled p" and "\<not> p_loading p"
  shows "(\<exists>st'. DynCheckbox_toggle_by_user p st = (st', [(\<not> checked st, Some False)])
            \<and> checked st' = (\<not> checked st) \<and> \<not> isIndeterminate st'
            \<and> DynCheckbox_getVisualState p st' \<noteq> VIndeterminate)
     \<and> (\<exists>st'. DynCheckboxEnhanced_toggle_by_user p st = (st', [(\<not> checked st, Some False)])
            \<and> checked st' = (\<not> checked st) \<and> \<not> isIndeterminate st'
            \<and> DynCheckboxEnhanced_getVisualState p st' \<noteq> VIndeterminate)
     \<and> (key = '' '' \<or> key = ''Enter'' \<longrightarrow>
          (\<exists>st'. DynCheckboxEnhanced_handleKeyDown p st key = (st', [(\<not> checked st, Some False)])
            \<and> checked st' = (\<not> checked st) \<and> \<not> isIndeterminate st'
            \<and> DynCheckboxEnhanced_getVisualState p st' \<noteq> VIndeterminate))
     \<and> (\<not> p_indeterminate q \<longrightarrow>
          isIndeterminate (DynCheckbox_effects (Some q) p st)
          \<and> isIndeterminate (DynCheckboxEnhanced_effects (Some q) p st)
          \<and> \<not> isIndeterminate (fst (DynCheckbox_toggle_by_user p
                                        (DynCheckbox_effects (Some q) p st)))
          \<and> \<not> isIndeterminate (fst (DynCheckboxEnhanced_toggle_by_user p
                                        (DynCheckboxEnhanced_effects (Some q) p st))))
     \<and> (p_indeterminate q \<longrightarrow>
          isIndeterminate (DynCheckbox_effects (Some q) p st) = isIndeterminate st
          \<and> isIndeterminate (DynCheckboxEnhanced_effects (Some q) p st) = isIndeterminate st)
     \<and> DynCheckbox_effects (Some p) p st = st
     \<and> DynCheckboxEnhanced_effects (Some p) p st = st"
proof -
  have enh: "hasEnhancedFeatures p"
    using assms(1) by (rule hasEnhancedFeatures_indeterminate)
  have dual: "\<exists>st'. DynCheckbox_toggle_by_user p s = (st', [(\<not> checked s, Some False)])
            \<and> checked st' = (\<not> checked s) \<and> \<not> isIndeterminate st'
            \<and> DynCheckbox_getVisualState p st' \<noteq> VIndeterminate" for s
    using assms enh
    by (simp add: DynCheckbox_toggle_by_user_def DynCheckbox_handleChange_def
        DynCheckbox_getVisualState_def Let_def)
  have enhd: "\<exists>st'. DynCheckboxEnhanced_toggle_by_user p s = (st', [(\<not> checked s, Some False)])
            \<and> checked st' = (\<not> checked s) \<and> \<not> isIndeterminate st'
            \<and> DynCheckboxEnhanced_getVisualState p st' \<noteq> VIndeterminate" for s
    using assms
    by (simp add: DynCheckboxEnhanced_toggle_by_user_def DynCheckboxEnhanced_handleChange_def
        DynCheckboxEnhanced_getVisualState_def Let_def)
  have keyd: "key = '' '' \<or> key = ''Enter'' \<longrightarrow>
          (\<exists>st'. DynCheckboxEnhanced_handleKeyDown p st key = (st', [(\<not> checked st, Some False)])
            \<and> checked st' = (\<not> checked st) \<and> \<not> isIndeterminate st'
            \<and> DynCheckboxEnhanced_getVisualState p st' \<noteq> VIndeterminate)"
    using assms
    by (auto simp: DynCheckboxEnhanced_handleKeyDown_def
        DynCheckboxEnhanced_getVisualState_def Let_def)
  have re1: "\<not> p_indeterminate q \<longrightarrow> isIndeterminate (DynCheckbox_effects (Some q) p st)"
    using assms(1) enh by (auto simp: DynCheckbox_effects_def Let_def split: option.splits)
  have re2: "\<not> p_indeterminate q \<longrightarrow> isIndeterminate (DynCheckboxEnhanced_effects (Some q) p st)"
    using assms(1) by (auto simp: DynCheckboxEnhanced_effects_def Let_def split: option.splits)
  have keep1: "p_indeterminate q \<longrightarrow>
      isIndeterminate (DynCheckbox_effects (Some q) p st) = isIndeterminate st"
    using assms(1) enh hasEnhancedFeatures_indeterminate [of q]
    by (auto simp: DynCheckbox_effects_def Let_def split: option.splits)
  have keep2: "p_indeterminate q \<longrightarrow>
      isIndeterminate (DynCheckboxEnhanced_effects (Some q) p st) = isIndeterminate st"
    using assms(1) by (auto simp: DynCheckboxEnhanced_effects_def Let_def split: option.splits)
  have cl1: "\<not> isIndeterminate (fst (DynCheckbox_toggle_by_user p s))" for s
    using dual [of s] by auto
  have cl2: "\<not> isIndeterminate (fst (DynCheckboxEnhanced_toggle_by_user p s))" for s
    using enhd [of s] by auto
  have same1: "DynCheckbox_effects (Some p) p st = st"
    by (simp add: DynCheckbox_effects_def)
  have same2: "DynCheckboxEnhanced_effects (Some p) p st = st"
    by (simp add: DynCheckboxEnhanced_effects_def)
  show ?thesis
    using dual [of st] enhd [of st] keyd re1 re2 keep1 keep2 cl1 cl2 same1 same2 by blast
qed

theorem indeterminate_cleared_by_interaction_witness:
  "p_indeterminate indeterminate_props \<and> \<not> p_readonly indeterminate_props
   \<and> \<not> p_disabled indeterminate_props \<and> \<not> p_loading indeterminate_props
   \<and> DynCheckbox_toggle_by_user indeterminate_props (initial_state indeterminate_props)
      = (\<lparr>checked = True, isIndeterminate = False, validationErrors = [],
          hasInteracted = True\<rparr>, [(True, Some False)])
   \<and> DynCheckboxEnhanced_handleKeyDown indeterminate_props (initial_state indeterminate_props)
        ''Enter''
      = (\<lparr>checked = True, isIndeterminate = False, validationErrors = [],
          hasInteracted = True\<rparr>, [(True, Some False)])
   \<and> isIndeterminate
        (DynCheckbox_effects (Some determinate_props) indeterminate_props
           \<lparr>checked = True, isIndeterminate = False, validationErrors = [],
            hasInteracted = True\<rparr>)
   \<and> DynCheckbox_effects (Some indeterminate_props) controlled_indeterminate_props
        \<lparr>checked = True, isIndeterminate = False, validationErrors = [],
         hasInteracted = True\<rparr>
      = \<lparr>checked = False, isIndeterminate = False, validationErrors = [],
         hasInteracted = True\<rparr>
   \<and> DynCheckboxEnhanced_effects (Some indeterminate_props) controlled_indeterminate_props
        \<lparr>checked = True, isIndeterminate = False, validationErrors = [],
         hasInteracted = True\<rparr>
      = \<lparr>checked = False, isIndeterminate = False, validationErrors = [],
         hasInteracted = True\<rparr>"
proof -
  have a: "p_indeterminate indeterminate_props" "\<not> p_readonly indeterminate_props"
    "\<not> p_disabled indeterminate_props" "\<not> p_loading indeterminate_props"
    by (simp_all add: indeterminate_props_def)
  have b: "p_indeterminate controlled_indeterminate_props"
    "\<not> p_readonly controlled_indeterminate_props"
    "\<not> p_disabled controlled_indeterminate_props"
    "\<not> p_loading controlled_indeterminate_props"
    by (simp_all add: controlled_indeterminate_props_def indeterminate_props_def)
  have e: "DynCheckbox_effects (Some indeterminate_props) controlled_indeterminate_props
        \<lparr>checked = True, isIndeterminate = False, validationErrors = [],
         hasInteracted = True\<rparr>
      = \<lparr>checked = False, isIndeterminate = False, validationErrors = [],
         hasInteracted = True\<rparr>"
    "DynCheckboxEnhanced_effects (Some indeterminate_props) controlled_indeterminate_props
        \<lparr>checked = True, isIndeterminate = False, validationErrors = [],
         hasInteracted = True\<rparr>
      = \<lparr>checked = False, isIndeterminate = False, validationErrors = [],
         hasInteracted = True\<rparr>"
    by (simp_all add: DynCheckbox_effects_def DynCheckboxEnhanced_effects_def
        controlled_indeterminate_props_def indeterminate_props_def hasEnhancedFeatures_def)
  have n: "\<not> p_indeterminate determinate_props"
    by (simp add: determinate_props_def indeterminate_props_def)
  have t: "DynCheckbox_toggle_by_user indeterminate_props (initial_state indeterminate_props)
      = (\<lparr>checked = True, isIndeterminate = False, validationErrors = [],
          hasInteracted = True\<rparr>, [(True, Some False)])"
    by (simp add: indeterminate_props_def initial_state_def DynCheckbox_toggle_by_user_def
        DynCheckbox_handleChange_def hasEnhancedFeatures_def validateCheckbox_def)
  have k: "DynCheckboxEnhanced_handleKeyDown indeterminate_props
        (initial_state indeterminate_props) ''Enter''
      = (\<lparr>checked = True, isIndeterminate = False, validationErrors = [],
          hasInteracted = True\<rparr>, [(True, Some False)])"
    by (simp add: indeterminate_props_def initial_state_def
        DynCheckboxEnhanced_handleKeyDown_def validateCheckbox_enhanced_def)
  show ?thesis
    using a n t k e
      indeterminate_cleared_by_interaction [OF a, of
        "\<lparr>checked = True, isIndeterminate = False, validationErrors = [], hasInteracted = True\<rparr>"
        "''Enter''" determinate_props]
      indeterminate_cleared_by_interaction [OF b, of
        "\<lparr>checked = True, isIndeterminate = False, validationErrors = [], hasInteracted = True\<rparr>"
        "''Enter''" indeterminate_props]
    by simp
qed


section \<open>Properties of the table's header checkbox\<close>

text \<open>
  C3, as stated, at an empty \<open>dataSource\<close> with an empty selection: the two lengths are
  equal, yet the header checkbox is not checked, because \<open>selectionState\<close> returns
  unchecked for an empty table before it compares the counts.
\<close>

theorem header_checked_empty_counterexample:
  "length (selectedRowKeys empty_selection) = length ([] :: string list)
   \<and> \<not> header_checked (selectionState (Some empty_selection) [])"
  by (simp add: empty_selection_def selectionState_def)

lemma header_props_enabled:
  "\<not> p_readonly (header_checkbox_props rs ds) \<and> \<not> p_disabled (header_checkbox_props rs ds)
   \<and> \<not> p_loading (header_checkbox_props rs ds) \<and> p_validation (header_checkbox_props rs ds) = []
   \<and> p_checked (header_checkbox_props rs ds) = Some (header_checked (selectionState rs ds))"
  by (simp add: header_checkbox_props_def)

lemma checked_header_mounted:
  "checked (header_mounted rs ds) = header_checked (selectionState rs ds)"
  by (simp add: header_mounted_def DynCheckboxEnhanced_effects_def initial_state_def
      header_checkbox_props_def)

text \<open>
  C3, amended. With \<open>rowSelection\<close> configured, the header checkbox is computed over the
  full \<open>dataSource\<close>: it is checked exactly when \<open>dataSource\<close> is non-empty and
  \<open>selectedRowKeys.length\<close> equals \<open>dataSource.length\<close>, and indeterminate exactly when
  \<open>0 < selectedRowKeys.length < dataSource.length\<close>; toggling it reports through
  \<open>onSelect\<close> (when given) the key of every record of \<open>dataSource\<close>, or the empty list:
  all keys when the checkbox's own state was unchecked, the empty list when it was
  checked. Right after mounting that state is the computed \<open>checked\<close> flag.
\<close>

theorem header_selection_state:
  "header_checked (selectionState (Some sel) dataSource)
     = (dataSource \<noteq> [] \<and> length (selectedRowKeys sel) = length dataSource)
   \<and> header_indeterminate (selectionState (Some sel) dataSource)
     = (0 < length (selectedRowKeys sel) \<and> length (selectedRowKeys sel) < length dataSource)
   \<and> (has_onSelect sel \<longrightarrow>
        handleSelectAll (Some sel) dataSource True = [(map (getRowKey sel) dataSource, dataSource)]
        \<and> handleSelectAll (Some sel) dataSource False = [([], [])]
        \<and> snd (header_toggle (Some sel) dataSource st)
            = (if checked st then [([], [])]
               else [(map (getRowKey sel) dataSource, dataSource)])
        \<and> snd (header_toggle (Some sel) dataSource (header_mounted (Some sel) dataSource))
            = (if header_checked (selectionState (Some sel) dataSource) then [([], [])]
               else [(map (getRowKey sel) dataSource, dataSource)]))
   \<and> checked (fst (header_toggle (Some sel) dataSource st)) = (\<not> checked st)"
proof -
  have t: "DynCheckboxEnhanced_toggle_by_user (header_checkbox_props (Some sel) dataSource) s
      = (s\<lparr>checked := \<not> checked s, isIndeterminate := False, hasInteracted := True,
            validationErrors := []\<rparr>, [(\<not> checked s, Some False)])" for s
    using header_props_enabled [of "Some sel" dataSource]
    by (simp add: DynCheckboxEnhanced_toggle_by_user_def DynCheckboxEnhanced_handleChange_def
        validateCheckbox_enhanced_def Let_def)
  have h: "has_onSelect sel \<Longrightarrow> snd (header_toggle (Some sel) dataSource s)
            = (if checked s then [([], [])]
               else [(map (getRowKey sel) dataSource, dataSource)])" for s
    by (simp add: header_toggle_def t handleSelectAll_def)
  have c: "checked (fst (header_toggle (Some sel) dataSource st)) = (\<not> checked st)"
    by (simp add: header_toggle_def t)
  show ?thesis
    using h [of st] h [of "header_mounted (Some sel) dataSource"] c
      checked_header_mounted [of "Some sel" dataSource]
    by (auto simp: selectionState_def handleSelectAll_def Let_def)
qed

theorem header_selection_state_witness:
  "has_onSelect one_of_two_selected
   \<and> selectionState (Some one_of_two_selected) [''a'', ''b'']
      = \<lparr>header_checked = False, header_indeterminate = True\<rparr>
   \<and> snd (header_toggle (Some one_of_two_selected) [''a'', ''b'']
            (header_mounted (Some one_of_two_selected) [''a'', ''b'']))
      = [([''a'', ''b''], [''a'', ''b''])]
   \<and> snd (header_toggle (Some one_of_two_selected) [''a'', ''b'']
            (fst (header_toggle (Some one_of_two_selected) [''a'', ''b'']
                    (header_mounted (Some one_of_two_selected) [''a'', ''b'']))))
      = [([], [])]
   \<and> handleSelectAll (Some one_of_two_selected) [''a'', ''b''] False = [([], [])]"
proof -
  have o: "has_onSelect one_of_two_selected"
    by (simp add: one_of_two_selected_def)
  have s: "selectionState (Some one_of_two_selected) [''a'', ''b'']
      = \<lparr>header_checked = False, header_indeterminate = True\<rparr>"
    by (simp add: one_of_two_selected_def selectionState_def)
  have g: "map (getRowKey one_of_two_selected) [''a'', ''b''] = [''a'', ''b'']"
    by (simp add: one_of_two_selected_def)
  show ?thesis
    using o s g
      header_selection_state [of one_of_two_selected "[''a'', ''b'']"
        "header_mounted (Some one_of_two_selected) [''a'', ''b'']"]
      header_selection_state [of one_of_two_selected "[''a'', ''b'']"
        "fst (header_toggle (Some one_of_two_selected) [''a'', ''b'']
                (header_mounted (Some one_of_two_selected) [''a'', ''b'']))"]
    by simp
qed


section \<open>Properties of the table's processing pipeline\<close>


























end
